theory Spec2Isabelle
  imports Complex_Main "HOL-Library.AList" "HOL-Library.Multiset"
begin

section \<open>Python values, exceptions and strings\<close>

text \<open>
  An exception is its class name and the text that \<^verbatim>\<open>str(e)\<close> gives. Fallible
  expressions of the source return \<open>exn + 'a\<close>, with \<open>Inl\<close> for the raised exception.
\<close>

datatype exn = Exn (exn_class: string) (exn_str: string)

datatype pyval = PyFloat real | PyStr string




section \<open>Artifact paths\<close>





section \<open>Schema validation (\<^verbatim>\<open>PatientInput\<close>)\<close>

text \<open>
  The request body after JSON decoding and the framework's type coercion: every field is
  either absent (\<open>None\<close>) or a value of the declared type.
\<close>

record payload =
  p_age :: "int option"
  p_gender :: "string option"
  p_donor_type :: "string option"
  p_comorbidity_score :: "int option"
  p_disease_type :: "string option"
  p_conditioning_intensity :: "string option"
  p_prior_transplants :: "int option"
  p_time_from_diagnosis_days :: "int option"
  p_treatment_days :: "int option"

record patient_input =
  age :: int
  gender :: string
  donor_type :: string
  comorbidity_score :: int
  disease_type :: string
  conditioning_intensity :: string
  prior_transplants :: int
  time_from_diagnosis_days :: int
  treatment_days :: int

text \<open>One entry of the 422 detail: the field and what is wrong with it.\<close>

datatype violation =
    Missing string
  | NotGe string int
  | NotLe string int
  | ValueError string string

text \<open>\<^verbatim>\<open>Field(..., ge=lo, le=hi)\<close> on an integer field.\<close>

definition int_field :: "string \<Rightarrow> int \<Rightarrow> int \<Rightarrow> int option \<Rightarrow> violation list" where
  "int_field name lo hi v =
     (case v of
        None \<Rightarrow> [Missing name]
      | Some n \<Rightarrow> if n < lo then [NotGe name lo] else if hi < n then [NotLe name hi] else [])"

text \<open>The text of a Python list of strings inside an f-string.\<close>

definition repr_str :: "string \<Rightarrow> string" where
  "repr_str x = [CHR 0x27] @ x @ [CHR 0x27]"

fun join :: "string \<Rightarrow> string list \<Rightarrow> string" where
  "join sep [] = []"
| "join sep [x] = x"
| "join sep (x # y # ys) = x @ sep @ join sep (y # ys)"

definition repr_list :: "string list \<Rightarrow> string" where
  "repr_list xs = ''['' @ join '', '' (map repr_str xs) @ '']''"

definition validate_gender :: "string \<Rightarrow> string + string" where
  "validate_gender v =
     (if v \<notin> set [''Male'', ''Female''] then Inl ''Gender must be Male or Female'' else Inr v)"

definition validate_donor_type :: "string \<Rightarrow> string + string" where
  "validate_donor_type v =
     (let valid_types = [''Matched sibling'', ''Matched unrelated'', ''Haploidentical'', ''Cord blood'']
      in if v \<notin> set valid_types
         then Inl (''Donor type must be one of: '' @ repr_list valid_types) else Inr v)"

definition validate_disease_type :: "string \<Rightarrow> string + string" where
  "validate_disease_type v =
     (let valid_types = [''AML'', ''ALL'', ''MDS'', ''Lymphoma'', ''Other'']
      in if v \<notin> set valid_types
         then Inl (''Disease type must be one of: '' @ repr_list valid_types) else Inr v)"

definition validate_conditioning_intensity :: "string \<Rightarrow> string + string" where
  "validate_conditioning_intensity v =
     (let valid_types = [''Myeloablative'', ''Reduced-intensity'']
      in if v \<notin> set valid_types
         then Inl (''Conditioning intensity must be one of: '' @ repr_list valid_types) else Inr v)"

text \<open>A required string field with its \<^verbatim>\<open>@validator\<close>.\<close>

definition str_field :: "string \<Rightarrow> (string \<Rightarrow> string + string) \<Rightarrow> string option \<Rightarrow> violation list" where
  "str_field name validator v =
     (case v of
        None \<Rightarrow> [Missing name]
      | Some x \<Rightarrow> (case validator x of Inl msg \<Rightarrow> [ValueError name msg] | Inr _ \<Rightarrow> []))"

definition violations :: "payload \<Rightarrow> violation list" where
  "violations b =
     int_field ''age'' 18 80 (p_age b) @
     str_field ''gender'' validate_gender (p_gender b) @
     str_field ''donor_type'' validate_donor_type (p_donor_type b) @
     int_field ''comorbidity_score'' 0 10 (p_comorbidity_score b) @
     str_field ''disease_type'' validate_disease_type (p_disease_type b) @
     str_field ''conditioning_intensity'' validate_conditioning_intensity (p_conditioning_intensity b) @
     int_field ''prior_transplants'' 0 1 (p_prior_transplants b) @
     int_field ''time_from_diagnosis_days'' 1 5000 (p_time_from_diagnosis_days b) @
     int_field ''treatment_days'' 1 365 (p_treatment_days b)"

text \<open>
  Constructing a \<^verbatim>\<open>PatientInput\<close>: it exists only when no field is violated; otherwise the
  validation error lists every violated field.
\<close>

definition validate :: "payload \<Rightarrow> violation list + patient_input" where
  "validate b =
     (case (p_age b, p_gender b, p_donor_type b, p_comorbidity_score b, p_disease_type b,
            p_conditioning_intensity b, p_prior_transplants b, p_time_from_diagnosis_days b,
            p_treatment_days b) of
        (Some a, Some g, Some d, Some c, Some dis, Some ci, Some pt, Some tfd, Some td) \<Rightarrow>
          if violations b = []
          then Inr \<lparr>age = a, gender = g, donor_type = d, comorbidity_score = c,
                    disease_type = dis, conditioning_intensity = ci, prior_transplants = pt,
                    time_from_diagnosis_days = tfd, treatment_days = td\<rparr>
          else Inl (violations b)
      | _ \<Rightarrow> Inl (violations b))"

section \<open>The loaded pipeline\<close>

text \<open>
  The fitted scikit-learn pipeline is a library object; the model keeps the parts of it the
  server touches. Every attribute read or call that may raise is a sum.
\<close>

type_synonym data_frame = "patient_input list"

record one_hot_encoder =
  has_get_feature_names_out :: bool
  get_feature_names_out :: "string list \<Rightarrow> exn + string list"

text \<open>
  A fitted transformer of the column transformer; \<open>onehot\<close> is the value of
  \<^verbatim>\<open>transformer.named_steps['onehot']\<close>.
\<close>

record transformer =
  onehot :: "exn + one_hot_encoder"

record column_transformer =
  transform :: "data_frame \<Rightarrow> exn + real list list"
  transformers :: "exn + (string \<times> transformer \<times> string list) list"

record xgb_classifier =
  feature_importances :: "exn + real list"

text \<open>
  \<open>step_xgb\<close> and \<open>step_preproc\<close> are the values of \<^verbatim>\<open>named_steps['xgb']\<close> and
  \<^verbatim>\<open>named_steps['preproc']\<close>.
\<close>

record pipeline =
  predict_proba :: "data_frame \<Rightarrow> exn + real list list"
  step_xgb :: "exn + xgb_classifier"
  step_preproc :: "exn + column_transformer"

text \<open>
  \<^verbatim>\<open>make_preprocessor\<close> (scripts/export_model.py) declares the numeric transformer first
  and the categorical one second; fitting keeps that order in \<^verbatim>\<open>transformers_\<close>.
\<close>

definition make_preprocessor ::
  "transformer \<Rightarrow> transformer \<Rightarrow> string list \<Rightarrow> string list \<Rightarrow>
     (string \<times> transformer \<times> string list) list" where
  "make_preprocessor numeric_transformer categorical_transformer categorical_features numeric_features =
     [(''num'', numeric_transformer, numeric_features),
      (''cat'', categorical_transformer, categorical_features)]"

section \<open>Process state and logging\<close>

datatype log_record =
    ModelLoaded
  | FeatureImportanceWarning exn
  | PredictionMade string patient_input real string
  | PredictionError exn

record app_state =
  model :: "pipeline option"
  prediction_count :: int
  error_count :: int
  logged :: "log_record list"

definition none_has_no_attribute :: "string \<Rightarrow> exn" where
  "none_has_no_attribute a =
     Exn ''AttributeError''
       ([CHR 0x27] @ ''NoneType'' @ [CHR 0x27] @ '' object has no attribute '' @ repr_str a)"

section \<open>Feature importance (\<^verbatim>\<open>get_feature_importance\<close>)\<close>

text \<open>The loop over \<^verbatim>\<open>transformers_\<close> that rebuilds the derived feature names.\<close>

fun feature_names_loop ::
  "(string \<times> transformer \<times> string list) list \<Rightarrow> string list \<Rightarrow> exn + string list" where
  "feature_names_loop [] feature_names = Inr feature_names"
| "feature_names_loop ((name, t, features) # rest) feature_names =
     (if name = ''num'' then feature_names_loop rest (feature_names @ features)
      else if name = ''cat'' then
        (case onehot t of
           Inl e \<Rightarrow> Inl e
         | Inr enc \<Rightarrow>
             if has_get_feature_names_out enc then
               (case get_feature_names_out enc features of
                  Inl e \<Rightarrow> Inl e
                | Inr cat_features \<Rightarrow> feature_names_loop rest (feature_names @ cat_features))
             else feature_names_loop rest feature_names)
      else feature_names_loop rest feature_names)"

text \<open>
  A Python dict is an association list in insertion order: \<^verbatim>\<open>d[k] = v\<close> overwrites the
  value of a key already there, in place, and appends a new key.
\<close>

fun importance_loop ::
  "string list \<Rightarrow> (nat \<times> real) list \<Rightarrow> (string \<times> real) list \<Rightarrow> (string \<times> real) list" where
  "importance_loop feature_names [] importance_dict = importance_dict"
| "importance_loop feature_names ((i, importance) # rest) importance_dict =
     (if i < length feature_names
      then importance_loop feature_names rest
             (AList.update (feature_names ! i) importance importance_dict)
      else importance_loop feature_names rest importance_dict)"

text \<open>
  \<^verbatim>\<open>sorted(items, key=lambda x: x[1], reverse=True)\<close>: a stable sort that keeps the
  original order among equal keys; CPython reverses, sorts ascending and reverses again.
\<close>

definition sorted_reverse :: "(string \<times> real) list \<Rightarrow> (string \<times> real) list" where
  "sorted_reverse items = rev (sort_key snd (rev items))"

text \<open>\<^verbatim>\<open>dict(pairs)\<close>.\<close>

definition dict_of :: "(string \<times> real) list \<Rightarrow> (string \<times> real) list" where
  "dict_of pairs = foldl (\<lambda>d (k, v). AList.update k v d) [] pairs"

text \<open>The body of the \<^verbatim>\<open>try\<close> block.\<close>

definition feature_importance_body :: "pipeline option \<Rightarrow> data_frame \<Rightarrow> exn + (string \<times> real) list" where
  "feature_importance_body mdl patient_data =
     (case mdl of
        None \<Rightarrow> Inl (none_has_no_attribute ''named_steps'')
      | Some m \<Rightarrow>
     (case step_xgb m of
        Inl e \<Rightarrow> Inl e
      | Inr xgb_model \<Rightarrow>
     (case feature_importances xgb_model of
        Inl e \<Rightarrow> Inl e
      | Inr feature_importance \<Rightarrow>
     (case step_preproc m of
        Inl e \<Rightarrow> Inl e
      | Inr preproc \<Rightarrow>
     (case transform preproc patient_data of
        Inl e \<Rightarrow> Inl e
      | Inr preprocessed \<Rightarrow>
     (case transformers preproc of
        Inl e \<Rightarrow> Inl e
      | Inr ts \<Rightarrow>
     (case feature_names_loop ts [] of
        Inl e \<Rightarrow> Inl e
      | Inr feature_names \<Rightarrow>
          let importance_dict = importance_loop feature_names (enumerate 0 feature_importance) [];
              sorted_importance = sorted_reverse importance_dict
          in Inr (dict_of (take 5 sorted_importance)))))))))"

definition fallback :: "(string \<times> pyval) list" where
  "fallback = [(''note'', PyStr ''Feature importance unavailable'')]"

definition get_feature_importance ::
  "pipeline option \<Rightarrow> data_frame \<Rightarrow> log_record list \<Rightarrow> (string \<times> pyval) list \<times> log_record list" where
  "get_feature_importance mdl patient_data lg =
     (case feature_importance_body mdl patient_data of
        Inr d \<Rightarrow> (map (\<lambda>(k, v). (k, PyFloat v)) d, lg)
      | Inl e \<Rightarrow> (fallback, lg @ [FeatureImportanceWarning e]))"

section \<open>Endpoints\<close>

record explainability_info =
  feature_importance :: "(string \<times> pyval) list"
  notes_text :: string

record prediction_response =
  probability :: real
  prediction :: string
  explainability :: explainability_info
  disclaimer :: string

text \<open>The warning sign and its variation selector, as UTF-8 bytes.\<close>

definition warning_sign :: string where
  "warning_sign = [CHR 0xE2, CHR 0x9A, CHR 0xA0, CHR 0xEF, CHR 0xB8, CHR 0x8F]"

definition default_disclaimer :: string where
  "default_disclaimer =
     warning_sign @ '' FOR RESEARCH/DEMO USE ONLY. NOT FOR CLINICAL DECISION-MAKING.''"

datatype response =
    Ok200 prediction_response
  | UnprocessableEntity422 "violation list"
  | TooManyRequests429
  | InternalServerError500 string

fun status_code :: "response \<Rightarrow> nat" where
  "status_code (Ok200 _) = 200"
| "status_code (UnprocessableEntity422 _) = 422"
| "status_code (TooManyRequests429) = 429"
| "status_code (InternalServerError500 _) = 500"

text \<open>\<^verbatim>\<open>a[0, 1]\<close> on the two-dimensional array that \<^verbatim>\<open>predict_proba\<close> returns.\<close>

definition index_0_1 :: "real list list \<Rightarrow> exn + real" where
  "index_0_1 a =
     (case a of
        [] \<Rightarrow> Inl (Exn ''IndexError'' ''index 0 is out of bounds for axis 0 with size 0'')
      | row # _ \<Rightarrow>
          if 1 < length row then Inr (row ! 1)
          else Inl (Exn ''IndexError'' ''index 1 is out of bounds for axis 1''))"

text \<open>\<^verbatim>\<open>model.predict_proba(patient_data)[0, 1]\<close> with the module-level \<^verbatim>\<open>model\<close>.\<close>

definition positive_class_probability :: "pipeline option \<Rightarrow> data_frame \<Rightarrow> exn + real" where
  "positive_class_probability mdl patient_data =
     (case mdl of
        None \<Rightarrow> Inl (none_has_no_attribute ''predict_proba'')
      | Some m \<Rightarrow>
          (case predict_proba m patient_data of
             Inl e \<Rightarrow> Inl e
           | Inr a \<Rightarrow> index_0_1 a))"

text \<open>
  The body of \<^verbatim>\<open>predict_survival\<close>; \<open>now\<close> is \<^verbatim>\<open>datetime.now().isoformat()\<close>. Any
  exception inside the \<^verbatim>\<open>try\<close> block reaches the \<^verbatim>\<open>except\<close> clause, which counts it and
  answers 500 with \<^verbatim>\<open>detail=str(e)\<close>.
\<close>

definition predict_survival :: "string \<Rightarrow> patient_input \<Rightarrow> app_state \<Rightarrow> response \<times> app_state" where
  "predict_survival now patient s =
     (let patient_data = [patient] in
      case positive_class_probability (model s) patient_data of
        Inl e \<Rightarrow>
          (InternalServerError500 (exn_str e),
           s\<lparr>error_count := error_count s + 1, logged := logged s @ [PredictionError e]\<rparr>)
      | Inr p \<Rightarrow>
          let prediction_class = (if p > 0.5 then ''Likely to survive'' else ''At risk'');
              (importance, lg) = get_feature_importance (model s) patient_data (logged s)
          in (Ok200 \<lparr>probability = p, prediction = prediction_class,
                     explainability = \<lparr>feature_importance = importance,
                        notes_text = ''Higher scores indicate greater influence on survival prediction''\<rparr>,
                     disclaimer = default_disclaimer\<rparr>,
              s\<lparr>prediction_count := prediction_count s + 1,
                logged := lg @ [PredictionMade now patient p prediction_class]\<rparr>))"

text \<open>
  The route \<^verbatim>\<open>POST /predict\<close>. The framework builds the \<^verbatim>\<open>PatientInput\<close> from the body
  before it calls the endpoint, and the endpoint it calls is the rate limiter's wrapper
  around \<^verbatim>\<open>predict_survival\<close>. The limiter is a library; \<open>limit_exceeded\<close> is its verdict
  for this request.
\<close>

definition post_predict :: "bool \<Rightarrow> string \<Rightarrow> payload \<Rightarrow> app_state \<Rightarrow> response \<times> app_state" where
  "post_predict limit_exceeded now body s =
     (case validate body of
        Inl errors \<Rightarrow> (UnprocessableEntity422 errors, s)
      | Inr patient \<Rightarrow>
          if limit_exceeded then (TooManyRequests429, s)
          else predict_survival now patient s)"

record metrics =
  m_prediction_count :: int
  m_error_count :: int
  m_timestamp :: string

definition get_metrics :: "string \<Rightarrow> app_state \<Rightarrow> metrics" where
  "get_metrics now s =
     \<lparr>m_prediction_count = prediction_count s, m_error_count = error_count s, m_timestamp = now\<rparr>"

record health =
  h_status :: string
  h_model_loaded :: bool
  h_timestamp :: string

definition health_check :: "string \<Rightarrow> app_state \<Rightarrow> health" where
  "health_check now s =
     \<lparr>h_status = ''healthy'', h_model_loaded = (model s \<noteq> None), h_timestamp = now\<rparr>"

section \<open>The synthetic dataset (\<^verbatim>\<open>generate_synthetic_hct_data\<close>)\<close>

text \<open>
  The generator draws from a seeded \<^verbatim>\<open>RandomState\<close>. The draws are the library's; the
  model takes them as given, one record field for each call on \<^verbatim>\<open>rng\<close> in the order of
  the source, each giving the value at an index of the drawn array. The Poisson draw is a
  natural number; the three masks of the last loop are indexed by their column.
\<close>

record rng_draws =
  normal_age :: "nat \<Rightarrow> real"
  choice_gender :: "nat \<Rightarrow> string"
  choice_donor_type :: "nat \<Rightarrow> string"
  poisson_comorbidity :: "nat \<Rightarrow> nat"
  choice_disease_type :: "nat \<Rightarrow> string"
  choice_conditioning :: "nat \<Rightarrow> string"
  binomial_prior :: "nat \<Rightarrow> int"
  exponential_diagnosis :: "nat \<Rightarrow> real"
  normal_treatment :: "nat \<Rightarrow> real"
  normal_risk :: "nat \<Rightarrow> real"
  rand_survival :: "nat \<Rightarrow> real"
  rand_mask :: "string \<Rightarrow> nat \<Rightarrow> real"

text \<open>An array drawn with \<^verbatim>\<open>size=n\<close>.\<close>

definition draw :: "nat \<Rightarrow> (nat \<Rightarrow> 'a) \<Rightarrow> 'a list" where
  "draw n f = map f [0..<n]"

text \<open>\<^verbatim>\<open>a.clip(lo, hi)\<close> on one element.\<close>

definition clip :: "'a::linorder \<Rightarrow> 'a \<Rightarrow> 'a \<Rightarrow> 'a" where
  "clip lo hi x = min (max x lo) hi"

text \<open>
  \<^verbatim>\<open>a.astype(int)\<close> on one float: the fraction is cut off, towards zero. (Mathematical
  integers: a float too large for 64 bits is not modelled.)
\<close>

definition astype_int :: "real \<Rightarrow> int" where
  "astype_int x = (if 0 \<le> x then \<lfloor>x\<rfloor> else \<lceil>x\<rceil>)"

datatype cell = IntCell int | StrCell string | NaN

type_synonym frame = "(string \<times> cell list) list"

text \<open>\<^verbatim>\<open>df.loc[mask, col] = np.nan\<close>.\<close>

definition set_nan :: "bool list \<Rightarrow> string \<Rightarrow> frame \<Rightarrow> frame" where
  "set_nan msk col df =
     map (\<lambda>(name, cells).
            if name = col then (name, map (\<lambda>(m, c). if m then NaN else c) (zip msk cells))
            else (name, cells)) df"

definition bool_times :: "bool \<Rightarrow> real \<Rightarrow> real" where
  "bool_times b x = (if b then x else 0)"

definition generate_synthetic_hct_data :: "nat \<Rightarrow> rng_draws \<Rightarrow> frame" where
  "generate_synthetic_hct_data n rng =
     (let age = map (\<lambda>x. astype_int (clip 18 80 x)) (draw n (normal_age rng));
          gender = draw n (choice_gender rng);
          donor_type = draw n (choice_donor_type rng);
          comorbidity_score = map int (draw n (poisson_comorbidity rng));
          disease_type = draw n (choice_disease_type rng);
          conditioning_intensity = draw n (choice_conditioning rng);
          prior_transplants = draw n (binomial_prior rng);
          time_from_diagnosis_days =
            map (\<lambda>x. clip 10 5000 (astype_int x)) (draw n (exponential_diagnosis rng));
          treatment_days =
            map (\<lambda>(c, z). clip 7 365 (astype_int (30 + real_of_int (c * 5) + z)))
              (zip comorbidity_score (draw n (normal_treatment rng)));
          risk =
            map (\<lambda>i. 0.03 * real_of_int (age ! i - 40) +
                      0.4 * real_of_int (comorbidity_score ! i) +
                      0.6 * real_of_int (prior_transplants ! i) +
                      bool_times (donor_type ! i = ''Matched sibling'') (- 0.6) +
                      bool_times (donor_type ! i = ''Haploidentical'') 0.4 +
                      bool_times (conditioning_intensity ! i = ''Myeloablative'') 0.3 +
                      normal_risk rng i) [0..<n];
          prob_survival = map (\<lambda>r. 1 / (1 + exp r)) risk;
          survival =
            map (\<lambda>(u, p). if u < p then (1::int) else 0) (zip (draw n (rand_survival rng)) prob_survival);
          df = [(''age'', map IntCell age),
                (''gender'', map StrCell gender),
                (''donor_type'', map StrCell donor_type),
                (''comorbidity_score'', map IntCell comorbidity_score),
                (''disease_type'', map StrCell disease_type),
                (''conditioning_intensity'', map StrCell conditioning_intensity),
                (''prior_transplants'', map IntCell prior_transplants),
                (''time_from_diagnosis_days'', map IntCell time_from_diagnosis_days),
                (''treatment_days'', map IntCell treatment_days),
                (''survival'', map IntCell survival)]
      in foldl (\<lambda>d col. set_nan (map (\<lambda>u. u < 0.03) (draw n (rand_mask rng col))) col d) df
           [''donor_type'', ''comorbidity_score'', ''conditioning_intensity''])"

text \<open>\<^verbatim>\<open>df[name]\<close> and \<^verbatim>\<open>list(df.columns)\<close>.\<close>

definition column :: "string \<Rightarrow> frame \<Rightarrow> cell list" where
  "column name df = (case map_of df name of Some cells \<Rightarrow> cells | None \<Rightarrow> [])"

definition columns :: "frame \<Rightarrow> string list" where
  "columns df = map fst df"

text \<open>A cell holds an integer between two bounds.\<close>

definition int_between :: "int \<Rightarrow> int \<Rightarrow> cell \<Rightarrow> bool" where
  "int_between lo hi c = (case c of IntCell v \<Rightarrow> lo \<le> v \<and> v \<le> hi | _ \<Rightarrow> False)"

section \<open>Contracts, the specification's wording, and fixtures\<close>



text \<open>
  The three ways the specification names for a payload to be invalid: a field is absent,
  a number is out of its range, a string is not in its enumeration.
\<close>

definition absent :: "'a option \<Rightarrow> bool" where
  "absent v = (v = None)"

definition out_of_range :: "int \<Rightarrow> int \<Rightarrow> int option \<Rightarrow> bool" where
  "out_of_range lo hi v = (case v of None \<Rightarrow> False | Some n \<Rightarrow> n < lo \<or> hi < n)"

definition not_in_enum :: "string list \<Rightarrow> string option \<Rightarrow> bool" where
  "not_in_enum valid v = (case v of None \<Rightarrow> False | Some x \<Rightarrow> x \<notin> set valid)"

definition some_field_absent :: "payload \<Rightarrow> bool" where
  "some_field_absent b =
     (absent (p_age b) \<or> absent (p_gender b) \<or> absent (p_donor_type b) \<or>
      absent (p_comorbidity_score b) \<or> absent (p_disease_type b) \<or>
      absent (p_conditioning_intensity b) \<or> absent (p_prior_transplants b) \<or>
      absent (p_time_from_diagnosis_days b) \<or> absent (p_treatment_days b))"

definition some_number_out_of_range :: "payload \<Rightarrow> bool" where
  "some_number_out_of_range b =
     (out_of_range 18 80 (p_age b) \<or> out_of_range 0 10 (p_comorbidity_score b) \<or>
      out_of_range 0 1 (p_prior_transplants b) \<or>
      out_of_range 1 5000 (p_time_from_diagnosis_days b) \<or>
      out_of_range 1 365 (p_treatment_days b))"

definition some_string_not_in_enum :: "payload \<Rightarrow> bool" where
  "some_string_not_in_enum b =
     (not_in_enum [''Male'', ''Female''] (p_gender b) \<or>
      not_in_enum [''Matched sibling'', ''Matched unrelated'', ''Haploidentical'', ''Cord blood'']
        (p_donor_type b) \<or>
      not_in_enum [''AML'', ''ALL'', ''MDS'', ''Lymphoma'', ''Other''] (p_disease_type b) \<or>
      not_in_enum [''Myeloablative'', ''Reduced-intensity''] (p_conditioning_intensity b))"

text \<open>
  The specification's wording of the explanation: the numeric names followed by the
  one-hot names, zipped with the scores position by position into a mapping (a score with
  no name is dropped), sorted by descending score, the first five.
\<close>

definition explain_spec :: "string list \<Rightarrow> string list \<Rightarrow> real list \<Rightarrow> (string \<times> real) list" where
  "explain_spec numeric_names onehot_names scores =
     take 5 (sort_key (\<lambda>(name, score). - score)
               (dict_of (zip (numeric_names @ onehot_names) scores)))"

text \<open>The valid patient of tests/test_api.py, as a payload and as a record.\<close>

definition valid_patient_data :: payload where
  "valid_patient_data =
     \<lparr>p_age = Some 45, p_gender = Some ''Female'', p_donor_type = Some ''Matched sibling'',
      p_comorbidity_score = Some 1, p_disease_type = Some ''AML'',
      p_conditioning_intensity = Some ''Reduced-intensity'', p_prior_transplants = Some 0,
      p_time_from_diagnosis_days = Some 180, p_treatment_days = Some 30\<rparr>"

definition valid_patient :: patient_input where
  "valid_patient =
     \<lparr>age = 45, gender = ''Female'', donor_type = ''Matched sibling'', comorbidity_score = 1,
      disease_type = ''AML'', conditioning_intensity = ''Reduced-intensity'',
      prior_transplants = 0, time_from_diagnosis_days = 180, treatment_days = 30\<rparr>"

text \<open>
  Stub artifacts: a small pipeline over the columns of \<^verbatim>\<open>test_preprocessor\<close>, which
  gives the positive class the probability \<open>1/2\<close> and has one importance score more than it
  has derived features; the same pipeline without its \<open>xgb\<close> step; and a pipeline whose
  every operation raises a given exception.
\<close>

definition stub_onehot :: one_hot_encoder where
  "stub_onehot =
     \<lparr>has_get_feature_names_out = True,
      get_feature_names_out =
        (\<lambda>features. Inr [''gender_Female'', ''gender_Male'',
                          ''donor_type_Matched sibling'', ''donor_type_Matched unrelated''])\<rparr>"

definition stub_scores :: "real list" where
  "stub_scores = [20, 30, 5, 5, 25, 15, 40]"

definition stub_preproc :: column_transformer where
  "stub_preproc =
     \<lparr>transform = (\<lambda>d. Inr (map (\<lambda>_. [0, 0, 1, 0, 1, 0]) d)),
      transformers =
        Inr (make_preprocessor \<lparr>onehot = Inl (Exn ''KeyError'' (repr_str ''onehot''))\<rparr>
               \<lparr>onehot = Inr stub_onehot\<rparr>
               [''gender'', ''donor_type''] [''age'', ''comorbidity_score''])\<rparr>"

definition stub_pipeline :: pipeline where
  "stub_pipeline =
     \<lparr>predict_proba = (\<lambda>d. Inr (map (\<lambda>_. [1/2, 1/2]) d)),
      step_xgb = Inr \<lparr>feature_importances = Inr stub_scores\<rparr>,
      step_preproc = Inr stub_preproc\<rparr>"

definition stub_without_xgb :: pipeline where
  "stub_without_xgb = stub_pipeline\<lparr>step_xgb := Inl (Exn ''KeyError'' (repr_str ''xgb''))\<rparr>"

definition failing_pipeline :: "exn \<Rightarrow> pipeline" where
  "failing_pipeline e = \<lparr>predict_proba = (\<lambda>d. Inl e), step_xgb = Inl e, step_preproc = Inl e\<rparr>"

text \<open>The module-level globals once \<^verbatim>\<open>load_model\<close> has run.\<close>

definition started :: "pipeline option \<Rightarrow> app_state" where
  "started mdl = \<lparr>model = mdl, prediction_count = 0, error_count = 0, logged = [ModelLoaded]\<rparr>"

text \<open>
  What the generator relies on from \<^verbatim>\<open>rng.binomial(1, 0.12, size=n)\<close>: a draw with one
  trial is 0 or 1.
\<close>

definition bernoulli_draws :: "nat \<Rightarrow> rng_draws \<Rightarrow> bool" where
  "bernoulli_draws n rng =
     list_all (\<lambda>i. binomial_prior rng i = 0 \<or> binomial_prior rng i = 1) [0..<n]"

text \<open>
  Draws for a dataset of two rows: ages below and above the clip, a Poisson draw of 11,
  and a mask that hits the comorbidity score of the second row only.
\<close>

definition stub_draws :: rng_draws where
  "stub_draws =
     \<lparr>normal_age = (\<lambda>i. if i = 0 then 12.5 else 95.25),
      choice_gender = (\<lambda>i. ''Male''),
      choice_donor_type = (\<lambda>i. ''Matched sibling''),
      poisson_comorbidity = (\<lambda>i. 11),
      choice_disease_type = (\<lambda>i. ''AML''),
      choice_conditioning = (\<lambda>i. ''Myeloablative''),
      binomial_prior = (\<lambda>i. if i = 0 then 0 else 1),
      exponential_diagnosis = (\<lambda>i. 3.75),
      normal_treatment = (\<lambda>i. 0),
      normal_risk = (\<lambda>i. 0),
      rand_survival = (\<lambda>i. 0.5),
      rand_mask = (\<lambda>col i. if col = ''comorbidity_score'' \<and> i = 1 then 0.01 else 0.5)\<rparr>"

section \<open>Properties of the artifact paths\<close>








section \<open>Properties of the prediction endpoint\<close>

lemma predict_survival_error:
  "positive_class_probability (model s) [patient] = Inl e \<Longrightarrow>
   predict_survival now patient s =
     (InternalServerError500 (exn_str e),
      s\<lparr>error_count := error_count s + 1, logged := logged s @ [PredictionError e]\<rparr>)"
  by (simp add: predict_survival_def)

lemma predict_survival_ok:
  "positive_class_probability (model s) [patient] = Inr p \<Longrightarrow>
   predict_survival now patient s =
     (Ok200 \<lparr>probability = p,
             prediction = (if p > 0.5 then ''Likely to survive'' else ''At risk''),
             explainability =
               \<lparr>feature_importance = fst (get_feature_importance (model s) [patient] (logged s)),
                notes_text = ''Higher scores indicate greater influence on survival prediction''\<rparr>,
             disclaimer = default_disclaimer\<rparr>,
      s\<lparr>prediction_count := prediction_count s + 1,
        logged := snd (get_feature_importance (model s) [patient] (logged s)) @
                  [PredictionMade now patient p (if p > 0.5 then ''Likely to survive'' else ''At risk'')]\<rparr>)"
  by (simp add: predict_survival_def Let_def split: prod.splits)





section \<open>Properties of schema validation\<close>

lemma int_field_iff:
  "int_field name lo hi v \<noteq> [] \<longleftrightarrow> absent v \<or> out_of_range lo hi v"
  by (simp add: int_field_def absent_def out_of_range_def split: option.splits)

lemma gender_field_iff:
  "str_field name validate_gender v \<noteq> [] \<longleftrightarrow>
     absent v \<or> not_in_enum [''Male'', ''Female''] v"
  by (simp add: str_field_def validate_gender_def absent_def not_in_enum_def
      split: option.splits)

lemma donor_type_field_iff:
  "str_field name validate_donor_type v \<noteq> [] \<longleftrightarrow>
     absent v \<or> not_in_enum [''Matched sibling'', ''Matched unrelated'', ''Haploidentical'', ''Cord blood''] v"
  by (simp add: str_field_def validate_donor_type_def absent_def not_in_enum_def Let_def
      split: option.splits)

lemma disease_type_field_iff:
  "str_field name validate_disease_type v \<noteq> [] \<longleftrightarrow>
     absent v \<or> not_in_enum [''AML'', ''ALL'', ''MDS'', ''Lymphoma'', ''Other''] v"
  by (simp add: str_field_def validate_disease_type_def absent_def not_in_enum_def Let_def
      split: option.splits)

lemma conditioning_field_iff:
  "str_field name validate_conditioning_intensity v \<noteq> [] \<longleftrightarrow>
     absent v \<or> not_in_enum [''Myeloablative'', ''Reduced-intensity''] v"
  by (simp add: str_field_def validate_conditioning_intensity_def absent_def not_in_enum_def
      Let_def split: option.splits)

lemma violations_iff:
  "violations b \<noteq> [] \<longleftrightarrow>
     some_field_absent b \<or> some_number_out_of_range b \<or> some_string_not_in_enum b"
proof -
  have "violations b \<noteq> [] \<longleftrightarrow>
      int_field ''age'' 18 80 (p_age b) \<noteq> [] \<or>
      str_field ''gender'' validate_gender (p_gender b) \<noteq> [] \<or>
      str_field ''donor_type'' validate_donor_type (p_donor_type b) \<noteq> [] \<or>
      int_field ''comorbidity_score'' 0 10 (p_comorbidity_score b) \<noteq> [] \<or>
      str_field ''disease_type'' validate_disease_type (p_disease_type b) \<noteq> [] \<or>
      str_field ''conditioning_intensity'' validate_conditioning_intensity
        (p_conditioning_intensity b) \<noteq> [] \<or>
      int_field ''prior_transplants'' 0 1 (p_prior_transplants b) \<noteq> [] \<or>
      int_field ''time_from_diagnosis_days'' 1 5000 (p_time_from_diagnosis_days b) \<noteq> [] \<or>
      int_field ''treatment_days'' 1 365 (p_treatment_days b) \<noteq> []"
    unfolding violations_def append_is_Nil_conv de_Morgan_conj [symmetric] by (rule refl)
  then show ?thesis
    unfolding int_field_iff gender_field_iff donor_type_field_iff disease_type_field_iff
      conditioning_field_iff some_field_absent_def some_number_out_of_range_def
      some_string_not_in_enum_def
    by blast
qed

lemma validate_fails:
  "violations b \<noteq> [] \<Longrightarrow> validate b = Inl (violations b)"
  by (simp add: validate_def split: option.splits)

lemma int_field_present: "int_field name lo hi v = [] \<Longrightarrow> \<exists>n. v = Some n"
  by (cases v) (simp_all add: int_field_def)

lemma str_field_present: "str_field name validator v = [] \<Longrightarrow> \<exists>x. v = Some x"
  by (cases v) (simp_all add: str_field_def)

lemma validate_succeeds:
  assumes "violations b = []"
  shows "\<exists>patient. validate b = Inr patient"
proof -
  from assms have
    "\<exists>n. p_age b = Some n" "\<exists>x. p_gender b = Some x" "\<exists>x. p_donor_type b = Some x"
    "\<exists>n. p_comorbidity_score b = Some n" "\<exists>x. p_disease_type b = Some x"
    "\<exists>x. p_conditioning_intensity b = Some x" "\<exists>n. p_prior_transplants b = Some n"
    "\<exists>n. p_time_from_diagnosis_days b = Some n" "\<exists>n. p_treatment_days b = Some n"
    unfolding violations_def append_is_Nil_conv
    by (blast dest: int_field_present str_field_present)+
  with assms show ?thesis
    unfolding validate_def by auto
qed

text \<open>
  C4. A payload with an absent field, a number out of its range or a string outside its
  enumeration is answered with 422 and the list of violations. The answer is the same
  whatever model is loaded, so the prediction service is not called; the state, with both
  counters and the log, is unchanged.
\<close>

theorem invalid_payload_rejected:
  assumes "some_field_absent b \<or> some_number_out_of_range b \<or> some_string_not_in_enum b"
  shows "post_predict limit_exceeded now b s = (UnprocessableEntity422 (violations b), s)
         \<and> status_code (fst (post_predict limit_exceeded now b s)) = 422
         \<and> fst (post_predict limit_exceeded now b (s\<lparr>model := other_model\<rparr>)) =
             fst (post_predict limit_exceeded now b s)
         \<and> prediction_count (snd (post_predict limit_exceeded now b s)) = prediction_count s
         \<and> error_count (snd (post_predict limit_exceeded now b s)) = error_count s
         \<and> logged (snd (post_predict limit_exceeded now b s)) = logged s"
proof -
  from assms have "violations b \<noteq> []" by (simp add: violations_iff)
  then have "validate b = Inl (violations b)" by (rule validate_fails)
  then have "post_predict l t b s' = (UnprocessableEntity422 (violations b), s')" for l t s'
    by (simp add: post_predict_def)
  then show ?thesis by simp
qed

theorem invalid_payload_rejected_witness:
  "some_number_out_of_range (valid_patient_data\<lparr>p_age := Some 15\<rparr>)
   \<and> some_string_not_in_enum (valid_patient_data\<lparr>p_gender := Some ''Other''\<rparr>)
   \<and> some_field_absent (valid_patient_data\<lparr>p_treatment_days := None\<rparr>)
   \<and> post_predict False ''2026-01-01T00:00:00'' (valid_patient_data\<lparr>p_age := Some 15\<rparr>)
        (started (Some stub_pipeline)) =
      (UnprocessableEntity422 [NotGe ''age'' 18], started (Some stub_pipeline))
   \<and> status_code (fst (post_predict False ''2026-01-01T00:00:00''
        (valid_patient_data\<lparr>p_gender := Some ''Other''\<rparr>) (started (Some stub_pipeline)))) = 422
   \<and> status_code (fst (post_predict True ''2026-01-01T00:00:00''
        (valid_patient_data\<lparr>p_treatment_days := None\<rparr>) (started None))) = 422"
proof -
  have a: "some_number_out_of_range (valid_patient_data\<lparr>p_age := Some 15\<rparr>)"
    by (simp add: some_number_out_of_range_def out_of_range_def valid_patient_data_def)
  have b: "some_string_not_in_enum (valid_patient_data\<lparr>p_gender := Some ''Other''\<rparr>)"
    by (simp add: some_string_not_in_enum_def not_in_enum_def valid_patient_data_def)
  have c: "some_field_absent (valid_patient_data\<lparr>p_treatment_days := None\<rparr>)"
    by (simp add: some_field_absent_def absent_def valid_patient_data_def)
  have v: "violations (valid_patient_data\<lparr>p_age := Some 15\<rparr>) = [NotGe ''age'' 18]"
    by (simp add: violations_def int_field_def str_field_def valid_patient_data_def
        validate_gender_def validate_donor_type_def validate_disease_type_def
        validate_conditioning_intensity_def)
  from a have a': "some_field_absent (valid_patient_data\<lparr>p_age := Some 15\<rparr>)
      \<or> some_number_out_of_range (valid_patient_data\<lparr>p_age := Some 15\<rparr>)
      \<or> some_string_not_in_enum (valid_patient_data\<lparr>p_age := Some 15\<rparr>)" by blast
  from b have b': "some_field_absent (valid_patient_data\<lparr>p_gender := Some ''Other''\<rparr>)
      \<or> some_number_out_of_range (valid_patient_data\<lparr>p_gender := Some ''Other''\<rparr>)
      \<or> some_string_not_in_enum (valid_patient_data\<lparr>p_gender := Some ''Other''\<rparr>)" by blast
  from c have c': "some_field_absent (valid_patient_data\<lparr>p_treatment_days := None\<rparr>)
      \<or> some_number_out_of_range (valid_patient_data\<lparr>p_treatment_days := None\<rparr>)
      \<or> some_string_not_in_enum (valid_patient_data\<lparr>p_treatment_days := None\<rparr>)" by blast
  have "post_predict False ''2026-01-01T00:00:00'' (valid_patient_data\<lparr>p_age := Some 15\<rparr>)
        (started (Some stub_pipeline)) =
      (UnprocessableEntity422 [NotGe ''age'' 18], started (Some stub_pipeline))"
    using invalid_payload_rejected [OF a'] v by simp
  moreover have "status_code (fst (post_predict False ''2026-01-01T00:00:00''
        (valid_patient_data\<lparr>p_gender := Some ''Other''\<rparr>) (started (Some stub_pipeline)))) = 422"
    using invalid_payload_rejected [OF b'] by blast
  moreover have "status_code (fst (post_predict True ''2026-01-01T00:00:00''
        (valid_patient_data\<lparr>p_treatment_days := None\<rparr>) (started None))) = 422"
    using invalid_payload_rejected [OF c'] by blast
  ultimately show ?thesis using a b c by blast
qed

section \<open>Properties of the counters and of the error path\<close>

lemma feature_importance_ignores_log:
  "fst (get_feature_importance mdl d lg) = fst (get_feature_importance mdl d lg')"
  by (simp add: get_feature_importance_def split: sum.splits)

lemma response_depends_on_model_only:
  assumes "model s' = model s"
  shows "fst (predict_survival now' patient s') = fst (predict_survival now patient s)"
proof (cases "positive_class_probability (model s) [patient]")
  case (Inl e)
  moreover from Inl assms have "positive_class_probability (model s') [patient] = Inl e"
    by simp
  ultimately show ?thesis
    by (simp add: predict_survival_error)
next
  case (Inr p)
  moreover from Inr assms have "positive_class_probability (model s') [patient] = Inr p"
    by simp
  ultimately show ?thesis
    using feature_importance_ignores_log [of "model s" "[patient]" "logged s'" "logged s"] assms
    by (simp add: predict_survival_ok)
qed

lemma predict_survival_keeps_model:
  "model (snd (predict_survival now patient s)) = model s"
  by (simp add: predict_survival_def Let_def split: sum.splits prod.splits)

text \<open>
  C5. A request whose inference raises is answered 500, adds exactly one to the error
  counter that \<open>get_metrics\<close> reports and leaves the success counter alone. A payload that
  fails validation leaves the error counter as it was, and so does a request whose
  explanation fails while its inference succeeds.
\<close>

theorem error_count_accounting:
  "(positive_class_probability (model s) [patient] = Inl e \<longrightarrow>
      status_code (fst (predict_survival now patient s)) = 500 \<and>
      m_error_count (get_metrics t (snd (predict_survival now patient s))) =
        m_error_count (get_metrics t s) + 1 \<and>
      m_prediction_count (get_metrics t (snd (predict_survival now patient s))) =
        m_prediction_count (get_metrics t s))
   \<and> (violations b \<noteq> [] \<longrightarrow>
      m_error_count (get_metrics t (snd (post_predict limit_exceeded now b s))) =
        m_error_count (get_metrics t s))
   \<and> (positive_class_probability (model s) [patient] = Inr p \<and>
       feature_importance_body (model s) [patient] = Inl e' \<longrightarrow>
      m_error_count (get_metrics t (snd (predict_survival now patient s))) =
        m_error_count (get_metrics t s))"
  by (simp add: predict_survival_error predict_survival_ok get_metrics_def post_predict_def
      validate_fails)

theorem error_count_accounting_witness:
  "positive_class_probability (model (started None)) [valid_patient] =
     Inl (none_has_no_attribute ''predict_proba'')
   \<and> m_error_count (get_metrics ''2026-01-01T00:00:01''
        (snd (predict_survival ''2026-01-01T00:00:00'' valid_patient (started None)))) = 1
   \<and> m_prediction_count (get_metrics ''2026-01-01T00:00:01''
        (snd (predict_survival ''2026-01-01T00:00:00'' valid_patient (started None)))) = 0
   \<and> violations (valid_patient_data\<lparr>p_age := Some 15\<rparr>) \<noteq> []
   \<and> m_error_count (get_metrics ''2026-01-01T00:00:01''
        (snd (post_predict False ''2026-01-01T00:00:00'' (valid_patient_data\<lparr>p_age := Some 15\<rparr>)
           (started None)))) = 0
   \<and> positive_class_probability (model (started (Some stub_without_xgb))) [valid_patient] =
       Inr (1/2)
   \<and> feature_importance_body (model (started (Some stub_without_xgb))) [valid_patient] =
       Inl (Exn ''KeyError'' (repr_str ''xgb''))
   \<and> m_error_count (get_metrics ''2026-01-01T00:00:01''
        (snd (predict_survival ''2026-01-01T00:00:00'' valid_patient
           (started (Some stub_without_xgb))))) = 0"
proof -
  have a: "positive_class_probability (model (started None)) [valid_patient] =
     Inl (none_has_no_attribute ''predict_proba'')"
    by (simp add: positive_class_probability_def started_def)
  have b: "violations (valid_patient_data\<lparr>p_age := Some 15\<rparr>) \<noteq> []"
    by (simp add: violations_def int_field_def valid_patient_data_def)
  have c: "positive_class_probability (model (started (Some stub_without_xgb))) [valid_patient] =
       Inr (1/2)"
    by (simp add: positive_class_probability_def started_def stub_without_xgb_def
        stub_pipeline_def index_0_1_def)
  have d: "feature_importance_body (model (started (Some stub_without_xgb))) [valid_patient] =
       Inl (Exn ''KeyError'' (repr_str ''xgb''))"
    by (simp add: feature_importance_body_def started_def stub_without_xgb_def)
  have z: "m_error_count (get_metrics u (started mdl)) = 0"
    "m_prediction_count (get_metrics u (started mdl)) = 0" for u mdl
    by (simp_all add: get_metrics_def started_def)
  note t1 = error_count_accounting [of "started None" valid_patient
      "none_has_no_attribute ''predict_proba''" "''2026-01-01T00:00:00''" "''2026-01-01T00:00:01''"
      "valid_patient_data\<lparr>p_age := Some 15\<rparr>" False "1/2" "Exn ''KeyError'' (repr_str ''xgb'')"]
  note t2 = error_count_accounting [of "started (Some stub_without_xgb)" valid_patient
      "none_has_no_attribute ''predict_proba''" "''2026-01-01T00:00:00''" "''2026-01-01T00:00:01''"
      "valid_patient_data\<lparr>p_age := Some 15\<rparr>" False "1/2" "Exn ''KeyError'' (repr_str ''xgb'')"]
  from t1 a b have
    "m_error_count (get_metrics ''2026-01-01T00:00:01''
        (snd (predict_survival ''2026-01-01T00:00:00'' valid_patient (started None)))) = 1"
    "m_prediction_count (get_metrics ''2026-01-01T00:00:01''
        (snd (predict_survival ''2026-01-01T00:00:00'' valid_patient (started None)))) = 0"
    "m_error_count (get_metrics ''2026-01-01T00:00:01''
        (snd (post_predict False ''2026-01-01T00:00:00'' (valid_patient_data\<lparr>p_age := Some 15\<rparr>)
           (started None)))) = 0"
    by (simp_all add: z)
  moreover from t2 c d have
    "m_error_count (get_metrics ''2026-01-01T00:00:01''
        (snd (predict_survival ''2026-01-01T00:00:00'' valid_patient
           (started (Some stub_without_xgb))))) = 0"
    by (simp add: z)
  ultimately show ?thesis using a b c d by blast
qed

text \<open>
  C7. The response of \<open>predict_survival\<close>, and with it the probability, is the same in any
  two states that hold the same model, whatever the counters, the log and the time are;
  and a call leaves the model as it found it.
\<close>

theorem predict_deterministic:
  "(model s' = model s \<longrightarrow>
      fst (predict_survival now' patient s') = fst (predict_survival now patient s))
   \<and> model (snd (predict_survival now patient s)) = model s"
  using response_depends_on_model_only predict_survival_keeps_model by blast

theorem predict_deterministic_witness:
  "model (snd (predict_survival ''2026-01-01T00:00:00'' valid_patient (started (Some stub_pipeline))))
     = model (started (Some stub_pipeline))
   \<and> fst (predict_survival ''2026-01-01T00:00:05'' valid_patient
        (snd (predict_survival ''2026-01-01T00:00:00'' valid_patient (started (Some stub_pipeline)))))
     = fst (predict_survival ''2026-01-01T00:00:00'' valid_patient (started (Some stub_pipeline)))"
proof -
  have a: "model (snd (predict_survival ''2026-01-01T00:00:00'' valid_patient
      (started (Some stub_pipeline)))) = model (started (Some stub_pipeline))"
    using predict_deterministic by blast
  from predict_deterministic [of
      "snd (predict_survival ''2026-01-01T00:00:00'' valid_patient (started (Some stub_pipeline)))"
      "started (Some stub_pipeline)" "''2026-01-01T00:00:05''" valid_patient
      "''2026-01-01T00:00:00''"] a
  show ?thesis by blast
qed

text \<open>
  C8 (as amended). When the inference raises, the response is 500 and its detail is the
  text of the exception, \<^verbatim>\<open>str(e)\<close>, and nothing else.
\<close>

theorem inference_error_detail:
  "positive_class_probability (model s) [patient] = Inl e \<Longrightarrow>
   fst (predict_survival now patient s) = InternalServerError500 (exn_str e)
   \<and> status_code (fst (predict_survival now patient s)) = 500"
  by (simp add: predict_survival_error)

theorem inference_error_detail_witness:
  "positive_class_probability
     (model (started (Some (failing_pipeline (Exn ''ValueError'' ''feature_names mismatch'')))))
     [valid_patient] = Inl (Exn ''ValueError'' ''feature_names mismatch'')
   \<and> fst (predict_survival ''2026-01-01T00:00:00'' valid_patient
        (started (Some (failing_pipeline (Exn ''ValueError'' ''feature_names mismatch'')))))
     = InternalServerError500 ''feature_names mismatch''"
proof -
  have a: "positive_class_probability
     (model (started (Some (failing_pipeline (Exn ''ValueError'' ''feature_names mismatch'')))))
     [valid_patient] = Inl (Exn ''ValueError'' ''feature_names mismatch'')"
    by (simp add: positive_class_probability_def started_def failing_pipeline_def)
  from inference_error_detail [OF a, of "''2026-01-01T00:00:00''"] a show ?thesis by simp
qed

text \<open>
  C8 as stated fails: a pipeline that raises a \<open>ValueError\<close> and a pipeline that raises a
  \<open>KeyError\<close> both end in 500, with different messages, each the text of its exception.
\<close>

theorem generic_message_counterexample:
  "fst (predict_survival ''2026-01-01T00:00:00'' valid_patient
        (started (Some (failing_pipeline (Exn ''ValueError'' ''feature_names mismatch''))))) =
     InternalServerError500 ''feature_names mismatch''
   \<and> fst (predict_survival ''2026-01-01T00:00:00'' valid_patient
        (started (Some (failing_pipeline (Exn ''KeyError'' (repr_str ''age'')))))) =
     InternalServerError500 (repr_str ''age'')
   \<and> fst (predict_survival ''2026-01-01T00:00:00'' valid_patient
        (started (Some (failing_pipeline (Exn ''ValueError'' ''feature_names mismatch''))))) \<noteq>
     fst (predict_survival ''2026-01-01T00:00:00'' valid_patient
        (started (Some (failing_pipeline (Exn ''KeyError'' (repr_str ''age''))))))"
  by (simp add: predict_survival_def positive_class_probability_def started_def
      failing_pipeline_def repr_str_def)

section \<open>Properties of the explanation\<close>









lemma importance_loop_zip:
  "importance_loop names (enumerate k scores) d =
     foldl (\<lambda>d (k, v). AList.update k v d) d (zip (drop k names) scores)"
proof (induction scores arbitrary: k d)
  case Nil
  then show ?case by simp
next
  case (Cons x xs)
  show ?case
  proof (cases "k < length names")
    case True
    then have "drop k names = names ! k # drop (Suc k) names"
      by (simp add: Cons_nth_drop_Suc)
    with True show ?thesis by (simp add: Cons.IH)
  next
    case False
    then have "drop k names = []" "drop (Suc k) names = []" by simp_all
    with False show ?thesis by (simp add: Cons.IH)
  qed
qed

lemma importance_loop_dict:
  "importance_loop names (enumerate 0 scores) [] = dict_of (zip names scores)"
  by (simp add: importance_loop_zip dict_of_def)

lemma sorted_reverse_stable_descending:
  "sorted_reverse items = sort_key (\<lambda>(name, score). - score) items"
proof -
  let ?g = "\<lambda>x :: string \<times> real. - snd x"
  let ?ys = "rev (sort_key snd (rev items))"
  have "sort_key ?g items = ?ys"
  proof (rule properties_for_sort_key)
    show "mset ?ys = mset items" by simp
  next
    fix k :: "string \<times> real"
    have "filter (\<lambda>x. snd x = snd k) (sort_key snd (rev items)) =
          filter (\<lambda>x. snd x = snd k) (rev items)"
      by (rule sort_key_stable)
    then have "filter (\<lambda>x. snd x = snd k) ?ys = filter (\<lambda>x. snd x = snd k) items"
      by (simp add: rev_filter [symmetric])
    moreover have "(\<lambda>x. ?g k = ?g x) = (\<lambda>x. snd x = snd k)"
      by auto
    ultimately show "filter (\<lambda>x. ?g k = ?g x) ?ys = filter (\<lambda>x. ?g k = ?g x) items"
      by simp
  next
    have "sorted (map snd (sort_key snd (rev items)))" by simp
    then have "sorted_wrt (\<lambda>a b. snd a \<le> snd b) (sort_key snd (rev items))"
      by (simp add: sorted_wrt_map)
    then have "sorted_wrt (\<lambda>a b. ?g b \<le> ?g a) (sort_key snd (rev items))"
      by simp
    then show "sorted (map ?g ?ys)"
      by (simp add: sorted_wrt_map sorted_wrt_rev)
  qed
  then show ?thesis
    by (simp add: sorted_reverse_def split_def)
qed

lemma update_fresh: "k \<notin> fst ` set al \<Longrightarrow> AList.update k v al = al @ [(k, v)]"
  by (induction al) auto

lemma fold_update_distinct:
  "distinct (map fst (d @ ps)) \<Longrightarrow> foldl (\<lambda>d (k, v). AList.update k v d) d ps = d @ ps"
proof (induction ps arbitrary: d)
  case Nil
  then show ?case by simp
next
  case (Cons a ps)
  obtain k v where a: "a = (k, v)" by (cases a)
  from Cons.prems a have fresh: "k \<notin> fst ` set d" by auto
  from Cons.prems a have "distinct (map fst ((d @ [(k, v)]) @ ps))" by simp
  then have "foldl (\<lambda>d (k, v). AList.update k v d) (d @ [(k, v)]) ps = (d @ [(k, v)]) @ ps"
    by (rule Cons.IH)
  then show ?case by (simp add: a update_fresh [OF fresh])
qed

lemma dict_of_distinct: "distinct (map fst ps) \<Longrightarrow> dict_of ps = ps"
  using fold_update_distinct [of "[]" ps] by (simp add: dict_of_def)

lemma distinct_fold_update:
  "distinct (map fst d) \<Longrightarrow> distinct (map fst (foldl (\<lambda>d (k, v). AList.update k v d) d ps))"
proof (induction ps arbitrary: d)
  case Nil
  then show ?case by simp
next
  case (Cons a ps)
  obtain k v where a: "a = (k, v)" by (cases a)
  from Cons.prems have "distinct (map fst (AList.update k v d))" by (rule distinct_update)
  then show ?case using Cons.IH a by simp
qed

lemma distinct_dict_of: "distinct (map fst (dict_of ps))"
  using distinct_fold_update [of "[]" ps] by (simp add: dict_of_def)

lemma distinct_keys_sort_take:
  assumes "distinct (map fst xs)"
  shows "distinct (map fst (take n (sort_key f xs)))"
proof -
  have "mset (map fst (sort_key f xs)) = mset (map fst xs)" by simp
  then have "distinct (map fst (sort_key f xs))"
    using assms by (metis mset_eq_imp_distinct_iff)
  then show ?thesis by (simp add: take_map [symmetric] del: take_map)
qed

lemma top_five_is_spec:
  "dict_of (take 5 (sorted_reverse (importance_loop names (enumerate 0 scores) []))) =
     take 5 (sort_key (\<lambda>(name, score). - score) (dict_of (zip names scores)))"
  unfolding importance_loop_dict sorted_reverse_stable_descending
  by (rule dict_of_distinct) (rule distinct_keys_sort_take, rule distinct_dict_of)

lemma feature_names_loop_other:
  "list_all (\<lambda>(name, t, features). name \<noteq> ''num'' \<and> name \<noteq> ''cat'') rest \<Longrightarrow>
   feature_names_loop rest acc = Inr acc"
  by (induction rest arbitrary: acc) auto

lemma feature_names_make_preprocessor:
  assumes "onehot ct = Inr enc" and "has_get_feature_names_out enc"
    and "get_feature_names_out enc categorical = Inr onehot_names"
    and "list_all (\<lambda>(name, t, features). name \<noteq> ''num'' \<and> name \<noteq> ''cat'') rest"
  shows "feature_names_loop (make_preprocessor nt ct categorical numeric @ rest) [] =
           Inr (numeric @ onehot_names)"
  using assms by (simp add: make_preprocessor_def feature_names_loop_other)


lemma explain_spec_descending:
  "sorted (map (\<lambda>(name, score). - score) (explain_spec numeric onehot_names scores))"
proof -
  have "sorted (map (\<lambda>(name, score). - score)
          (sort_key (\<lambda>(name, score). - score) (dict_of (zip (numeric @ onehot_names) scores))))"
    by (rule sorted_sort_key)
  then have "sorted (take 5 (map (\<lambda>(name, score). - score)
          (sort_key (\<lambda>(name, score). - score) (dict_of (zip (numeric @ onehot_names) scores)))))"
    by (rule sorted_wrt_take)
  then show ?thesis by (simp add: explain_spec_def take_map)
qed

lemma explain_spec_distinct:
  assumes "distinct (take (length scores) (numeric @ onehot_names))"
  shows "explain_spec numeric onehot_names scores =
           take 5 (sort_key (\<lambda>(name, score). - score) (zip (numeric @ onehot_names) scores))"
proof -
  have "map fst (zip (numeric @ onehot_names) scores) =
          take (length scores) (numeric @ onehot_names)"
    by (simp add: map_fst_zip_take min_def)
  with assms have "dict_of (zip (numeric @ onehot_names) scores) = zip (numeric @ onehot_names) scores"
    by (simp add: dict_of_distinct)
  then show ?thesis by (simp add: explain_spec_def)
qed

text \<open>
  C3. For a pipeline whose preprocessing step was declared by \<open>make_preprocessor\<close> (any
  further entry of \<^verbatim>\<open>transformers_\<close> being neither \<open>num\<close> nor \<open>cat\<close>), whenever every
  step of the explanation succeeds the result is the specification's: the numeric names
  followed by the one-hot names, zipped with the scores by position into a mapping, scores
  without a name dropped, sorted by descending score, the first five. The result is in
  descending order of score, and with distinct derived names the mapping is the plain zip.
\<close>

theorem explain_algorithm:
  assumes "step_xgb m = Inr xgb_model"
    and "feature_importances xgb_model = Inr scores"
    and "step_preproc m = Inr preproc"
    and "transform preproc d = Inr preprocessed"
    and "transformers preproc = Inr (make_preprocessor nt ct categorical numeric @ rest)"
    and "list_all (\<lambda>(name, t, features). name \<noteq> ''num'' \<and> name \<noteq> ''cat'') rest"
    and "onehot ct = Inr enc"
    and "has_get_feature_names_out enc"
    and "get_feature_names_out enc categorical = Inr onehot_names"
  shows "feature_importance_body (Some m) d = Inr (explain_spec numeric onehot_names scores)
         \<and> get_feature_importance (Some m) d lg =
             (map (\<lambda>(k, v). (k, PyFloat v)) (explain_spec numeric onehot_names scores), lg)
         \<and> sorted (map (\<lambda>(name, score). - score) (explain_spec numeric onehot_names scores))
         \<and> (distinct (take (length scores) (numeric @ onehot_names)) \<longrightarrow>
              explain_spec numeric onehot_names scores =
                take 5 (sort_key (\<lambda>(name, score). - score)
                          (zip (numeric @ onehot_names) scores)))"
proof -
  have names: "feature_names_loop (make_preprocessor nt ct categorical numeric @ rest) [] =
      Inr (numeric @ onehot_names)"
    using assms(7,8,9,6) by (rule feature_names_make_preprocessor)
  have body: "feature_importance_body (Some m) d = Inr (explain_spec numeric onehot_names scores)"
    using assms(1-5) names
    by (simp add: feature_importance_body_def Let_def top_five_is_spec explain_spec_def)
  then have "get_feature_importance (Some m) d lg =
             (map (\<lambda>(k, v). (k, PyFloat v)) (explain_spec numeric onehot_names scores), lg)"
    by (simp add: get_feature_importance_def)
  with body show ?thesis
    using explain_spec_descending explain_spec_distinct by blast
qed

theorem explain_algorithm_witness:
  "step_xgb stub_pipeline = Inr \<lparr>feature_importances = Inr stub_scores\<rparr>
   \<and> step_preproc stub_pipeline = Inr stub_preproc
   \<and> transform stub_preproc [valid_patient] = Inr [[0, 0, 1, 0, 1, 0]]
   \<and> onehot \<lparr>onehot = Inr stub_onehot\<rparr> = Inr stub_onehot
   \<and> has_get_feature_names_out stub_onehot
   \<and> feature_importance_body (Some stub_pipeline) [valid_patient] =
       Inr [(''comorbidity_score'', 30), (''donor_type_Matched sibling'', 25), (''age'', 20),
            (''donor_type_Matched unrelated'', 15), (''gender_Female'', 5)]"
proof -
  have a: "step_xgb stub_pipeline = Inr \<lparr>feature_importances = Inr stub_scores\<rparr>"
    and b: "step_preproc stub_pipeline = Inr stub_preproc"
    by (simp_all add: stub_pipeline_def)
  have a': "feature_importances \<lparr>feature_importances = Inr stub_scores\<rparr> = Inr stub_scores"
    by simp
  have c: "transform stub_preproc [valid_patient] = Inr [[0, 0, 1, 0, 1, 0]]"
    by (simp add: stub_preproc_def)
  have d: "transformers stub_preproc =
      Inr (make_preprocessor \<lparr>onehot = Inl (Exn ''KeyError'' (repr_str ''onehot''))\<rparr>
             \<lparr>onehot = Inr stub_onehot\<rparr> [''gender'', ''donor_type''] [''age'', ''comorbidity_score'']
           @ [])"
    by (simp add: stub_preproc_def)
  have e: "list_all (\<lambda>(name, t, features). name \<noteq> ''num'' \<and> name \<noteq> ''cat'')
      ([] :: (string \<times> transformer \<times> string list) list)"
    by simp
  have f: "onehot \<lparr>onehot = Inr stub_onehot\<rparr> = Inr stub_onehot" by simp
  have g: "has_get_feature_names_out stub_onehot" by (simp add: stub_onehot_def)
  have h: "get_feature_names_out stub_onehot [''gender'', ''donor_type''] =
      Inr [''gender_Female'', ''gender_Male'',
           ''donor_type_Matched sibling'', ''donor_type_Matched unrelated'']"
    by (simp add: stub_onehot_def)
  have i: "explain_spec [''age'', ''comorbidity_score'']
       [''gender_Female'', ''gender_Male'',
        ''donor_type_Matched sibling'', ''donor_type_Matched unrelated''] stub_scores =
     [(''comorbidity_score'', 30), (''donor_type_Matched sibling'', 25), (''age'', 20),
      (''donor_type_Matched unrelated'', 15), (''gender_Female'', 5)]"
    by (simp add: explain_spec_def stub_scores_def dict_of_def)
  from explain_algorithm [OF a a' b c d e f g h, of "[]"] i
  have "feature_importance_body (Some stub_pipeline) [valid_patient] =
       Inr [(''comorbidity_score'', 30), (''donor_type_Matched sibling'', 25), (''age'', 20),
            (''donor_type_Matched unrelated'', 15), (''gender_Female'', 5)]"
    by simp
  with a b c f g show ?thesis by blast
qed

section \<open>Properties of the synthetic dataset\<close>

lemma clip_bounds: "lo \<le> hi \<Longrightarrow> lo \<le> clip lo hi x \<and> clip lo hi x \<le> hi"
  by (auto simp: clip_def)

lemma age_bounds: "int_between 18 80 (IntCell (astype_int (clip 18 80 x)))"
proof -
  have "(18::real) \<le> clip 18 80 x \<and> clip 18 80 x \<le> 80"
    by (rule clip_bounds) simp
  then show ?thesis
    by (auto simp: int_between_def astype_int_def le_floor_iff floor_le_iff)
qed

lemma clip_cell: "lo \<le> hi \<Longrightarrow> int_between lo hi (IntCell (clip lo hi v))"
  using clip_bounds [of lo hi v] by (simp add: int_between_def)

lemma columns_generate:
  "columns (generate_synthetic_hct_data n rng) =
     [''age'', ''gender'', ''donor_type'', ''comorbidity_score'', ''disease_type'',
      ''conditioning_intensity'', ''prior_transplants'', ''time_from_diagnosis_days'',
      ''treatment_days'', ''survival'']"
  by (simp add: generate_synthetic_hct_data_def Let_def set_nan_def columns_def)

lemma rows_generate:
  "list_all (\<lambda>(name, cells). length cells = n) (generate_synthetic_hct_data n rng)"
  by (simp add: generate_synthetic_hct_data_def Let_def set_nan_def draw_def)

lemma age_generate:
  "list_all (int_between 18 80) (column ''age'' (generate_synthetic_hct_data n rng))"
  by (simp add: generate_synthetic_hct_data_def Let_def set_nan_def column_def list_all_iff
      age_bounds)

lemma diagnosis_generate:
  "list_all (int_between 10 5000)
     (column ''time_from_diagnosis_days'' (generate_synthetic_hct_data n rng))"
  by (simp add: generate_synthetic_hct_data_def Let_def set_nan_def column_def list_all_iff
      clip_cell)

lemma treatment_generate:
  "list_all (int_between 7 365) (column ''treatment_days'' (generate_synthetic_hct_data n rng))"
  by (auto simp: generate_synthetic_hct_data_def Let_def set_nan_def column_def list_all_iff
      clip_cell)

lemma survival_generate:
  "list_all (int_between 0 1) (column ''survival'' (generate_synthetic_hct_data n rng))"
  by (auto simp: generate_synthetic_hct_data_def Let_def set_nan_def column_def list_all_iff
      int_between_def)

lemma prior_generate:
  "bernoulli_draws n rng \<Longrightarrow>
   list_all (int_between 0 1) (column ''prior_transplants'' (generate_synthetic_hct_data n rng))"
  by (auto simp: generate_synthetic_hct_data_def Let_def set_nan_def column_def list_all_iff
      int_between_def bernoulli_draws_def draw_def)

lemma comorbidity_generate:
  "column ''comorbidity_score'' (generate_synthetic_hct_data n rng) =
     map (\<lambda>i. if rand_mask rng ''comorbidity_score'' i < 0.03 then NaN
               else IntCell (int (poisson_comorbidity rng i))) [0..<n]"
  by (auto simp: generate_synthetic_hct_data_def Let_def set_nan_def column_def draw_def
      intro!: nth_equalityI)

lemma nan_generate:
  "list_all (\<lambda>(name, cells). NaN \<in> set cells \<longrightarrow>
       name \<in> set [''donor_type'', ''comorbidity_score'', ''conditioning_intensity''])
     (generate_synthetic_hct_data n rng)"
  by (auto simp: generate_synthetic_hct_data_def Let_def set_nan_def)


text \<open>
  C10. For every size and every outcome of the random draws (a one-trial binomial draw
  being 0 or 1), the dataset has the nine feature columns and the outcome column in the
  fixed order, every column has \<open>n\<close> rows, age is in \<open>[18, 80]\<close>, prior_transplants and
  survival are 0 or 1, treatment_days is in \<open>[7, 365]\<close>, time_from_diagnosis_days is in
  \<open>[10, 5000]\<close>, and a missing value can only be in donor_type, comorbidity_score or
  conditioning_intensity. The comorbidity score is the Poisson draw itself wherever it is
  not masked, with no upper bound.
\<close>

theorem synthetic_data_shape:
  assumes "bernoulli_draws n rng"
  shows "columns (generate_synthetic_hct_data n rng) =
           [''age'', ''gender'', ''donor_type'', ''comorbidity_score'', ''disease_type'',
            ''conditioning_intensity'', ''prior_transplants'', ''time_from_diagnosis_days'',
            ''treatment_days'', ''survival'']
         \<and> list_all (\<lambda>(name, cells). length cells = n) (generate_synthetic_hct_data n rng)
         \<and> list_all (int_between 18 80) (column ''age'' (generate_synthetic_hct_data n rng))
         \<and> list_all (int_between 0 1)
             (column ''prior_transplants'' (generate_synthetic_hct_data n rng))
         \<and> list_all (int_between 0 1) (column ''survival'' (generate_synthetic_hct_data n rng))
         \<and> list_all (int_between 7 365)
             (column ''treatment_days'' (generate_synthetic_hct_data n rng))
         \<and> list_all (int_between 10 5000)
             (column ''time_from_diagnosis_days'' (generate_synthetic_hct_data n rng))
         \<and> list_all (\<lambda>(name, cells). NaN \<in> set cells \<longrightarrow>
               name \<in> set [''donor_type'', ''comorbidity_score'', ''conditioning_intensity''])
             (generate_synthetic_hct_data n rng)
         \<and> column ''comorbidity_score'' (generate_synthetic_hct_data n rng) =
             map (\<lambda>i. if rand_mask rng ''comorbidity_score'' i < 0.03 then NaN
                       else IntCell (int (poisson_comorbidity rng i))) [0..<n]"
  using columns_generate rows_generate age_generate prior_generate [OF assms] survival_generate
    treatment_generate diagnosis_generate nan_generate comorbidity_generate
  by blast

theorem synthetic_data_shape_witness:
  "bernoulli_draws 2 stub_draws
   \<and> column ''comorbidity_score'' (generate_synthetic_hct_data 2 stub_draws) = [IntCell 11, NaN]
   \<and> \<not> int_between 0 10 (IntCell 11)
   \<and> list_all (\<lambda>(name, cells). length cells = 2) (generate_synthetic_hct_data 2 stub_draws)
   \<and> list_all (int_between 18 80) (column ''age'' (generate_synthetic_hct_data 2 stub_draws))"
proof -
  have two: "[0..<2] = [0, 1]" by (simp add: upt_rec)
  have a: "bernoulli_draws 2 stub_draws"
    by (simp add: bernoulli_draws_def stub_draws_def two)
  have b: "\<not> int_between 0 10 (IntCell 11)"
    by (simp add: int_between_def)
  note t = synthetic_data_shape [OF a]
  from t have "column ''comorbidity_score'' (generate_synthetic_hct_data 2 stub_draws) =
      map (\<lambda>i. if rand_mask stub_draws ''comorbidity_score'' i < 0.03 then NaN
                else IntCell (int (poisson_comorbidity stub_draws i))) [0..<2]"
    by blast
  then have c: "column ''comorbidity_score'' (generate_synthetic_hct_data 2 stub_draws) =
      [IntCell 11, NaN]"
    by (simp add: two stub_draws_def)
  from t a b c show ?thesis by blast
qed

end
